theory Spec2Isabelle
  imports Main "HOL-Library.Sublist"
begin

section \<open>Data model\<close>

text \<open>
  The embedding follows \<^verbatim>\<open>agent.py\<close>. Class \<^verbatim>\<open>Product\<close> is a record with the
  attributes \<^verbatim>\<open>name\<close> and \<^verbatim>\<open>price\<close>. The selector dictionary, which the program only
  ever reads at the keys \<^verbatim>\<open>'container'\<close>, \<^verbatim>\<open>'name'\<close> and \<^verbatim>\<open>'price'\<close>, is a record of
  the three values stored under these keys; its fields carry the names of the parameters
  of \<^verbatim>\<open>extract_products\<close> that receive them. A value stored in a dictionary is a
  string or something else: \<^verbatim>\<open>json.loads\<close> also yields null, numbers, booleans, lists
  and objects, and \<^verbatim>\<open>ask_ai_to_fix\<close> returns whatever dictionary has the three keys.
\<close>

datatype pyvalue = Str string | Other

record Product =
  name :: string
  price :: string

record selectors =
  container_selector :: pyvalue
  name_selector :: pyvalue
  price_selector :: pyvalue

subsection \<open>Dictionary objects\<close>

text \<open>
  Python dictionaries are objects handled by reference. The store maps addresses to
  dictionary contents; \<open>next_free\<close> is the first address never handed out. A variable
  such as \<^verbatim>\<open>current_selectors\<close> holds an address.
\<close>

type_synonym addr = nat

record store =
  cells :: "addr \<Rightarrow> selectors"
  next_free :: addr

definition deref :: "store \<Rightarrow> addr \<Rightarrow> selectors" where
  "deref s a = cells s a"

definition alloc :: "store \<Rightarrow> selectors \<Rightarrow> addr \<times> store" where
  "alloc s d = (next_free s, s\<lparr>cells := (cells s)(next_free s := d), next_free := Suc (next_free s)\<rparr>)"

definition dict_copy :: "store \<Rightarrow> addr \<Rightarrow> addr \<times> store" where
  \<comment> \<open>\<^verbatim>\<open>d.copy()\<close>: a new dictionary object with the contents of \<open>d\<close>\<close>
  "dict_copy s a = alloc s (deref s a)"

subsection \<open>Collaborators\<close>

text \<open>
  The libraries the program calls are parameters of the model. Elements of a parsed
  document have an arbitrary type \<open>'e\<close>.
  \<^item> \<open>http_get url\<close> is \<^verbatim>\<open>requests.get(url, ...).text\<close>, \<open>None\<close> when the call raises;
  \<^item> \<open>engine_accepts sel\<close> tells whether the selector engine accepts the string \<open>sel\<close>
    as a selector; on any other string, and on a value that is not a string, a
    selection raises;
  \<^item> \<open>matches_all html sel\<close> is what \<^verbatim>\<open>BeautifulSoup(html, "html.parser").select(sel)\<close>
    returns for an accepted selector, the matching elements in document order;
  \<^item> \<open>matches_one c sel\<close> is what \<^verbatim>\<open>c.select_one(sel)\<close> returns for an accepted selector;
  \<^item> \<open>get_text e\<close> is \<^verbatim>\<open>e.get_text(strip=True)\<close>;
  \<^item> \<open>model_reply k (c, n, p, err, snippet)\<close> is the answer of the \<open>k\<close>-th request of a run
    to the generative model, made from the three selectors tried, the error message and
    the document snippet, and decoded into a dictionary (lines starting with a code fence
    dropped, \<^verbatim>\<open>json.loads\<close>, the three keys read); \<open>None\<close> when any of these steps
    raises. The index \<open>k\<close> lets two requests with equal arguments be answered differently.
  Console output is not modelled.
\<close>

record 'e collaborators =
  http_get :: "string \<Rightarrow> string option"
  engine_accepts :: "string \<Rightarrow> bool"
  matches_all :: "string \<Rightarrow> string \<Rightarrow> 'e list"
  matches_one :: "'e \<Rightarrow> string \<Rightarrow> 'e option"
  get_text :: "'e \<Rightarrow> string"
  model_reply :: "nat \<Rightarrow> pyvalue \<times> pyvalue \<times> pyvalue \<times> string option \<times> string \<Rightarrow> selectors option"

datatype exn = SelectorError

fun accepted :: "'e collaborators \<Rightarrow> pyvalue \<Rightarrow> bool" where
  "accepted E (Str sel) = engine_accepts E sel"
| "accepted E Other = False"

fun soup_select :: "'e collaborators \<Rightarrow> string \<Rightarrow> pyvalue \<Rightarrow> exn + 'e list" where
  \<comment> \<open>\<^verbatim>\<open>BeautifulSoup(html, "html.parser").select(sel)\<close>\<close>
  "soup_select E doc (Str sel) =
     (if engine_accepts E sel then Inr (matches_all E doc sel) else Inl SelectorError)"
| "soup_select E doc Other = Inl SelectorError"

fun select_one :: "'e collaborators \<Rightarrow> 'e \<Rightarrow> pyvalue \<Rightarrow> exn + 'e option" where
  \<comment> \<open>\<^verbatim>\<open>container.select_one(sel)\<close>\<close>
  "select_one E c (Str sel) =
     (if engine_accepts E sel then Inr (matches_one E c sel) else Inl SelectorError)"
| "select_one E c Other = Inl SelectorError"

section \<open>The program\<close>

definition fetch_webpage :: "'e collaborators \<Rightarrow> string \<Rightarrow> string option" where
  "fetch_webpage E url = http_get E url"

subsection \<open>\<^verbatim>\<open>extract_products\<close>\<close>

text \<open>
  A selection that raises ends \<^verbatim>\<open>extract_products\<close> with the exception: the function
  has no \<^verbatim>\<open>try\<close>.
\<close>

definition field_text :: "'e collaborators \<Rightarrow> 'e \<Rightarrow> pyvalue \<Rightarrow> exn + string option" where
  \<comment> \<open>\<^verbatim>\<open>elem = container.select_one(sel); elem.get_text(strip=True) if elem else None\<close>\<close>
  "field_text E container sel =
     (case select_one E container sel of
        Inl e \<Rightarrow> Inl e
      | Inr None \<Rightarrow> Inr None
      | Inr (Some elem) \<Rightarrow> Inr (Some (get_text E elem)))"

fun products_loop ::
  "'e collaborators \<Rightarrow> pyvalue \<Rightarrow> pyvalue \<Rightarrow> 'e list \<Rightarrow> Product list \<Rightarrow> exn + Product list" where
  "products_loop E name_sel price_sel [] products = Inr products"
| "products_loop E name_sel price_sel (container # rest) products =
     (case field_text E container name_sel of
        Inl e \<Rightarrow> Inl e
      | Inr name_text \<Rightarrow>
          (case field_text E container price_sel of
             Inl e \<Rightarrow> Inl e
           | Inr price_text \<Rightarrow>
               products_loop E name_sel price_sel rest
                 (case (name_text, price_text) of
                    (Some n, Some p) \<Rightarrow>
                      if n \<noteq> [] \<and> p \<noteq> [] then products @ [\<lparr>name = n, price = p\<rparr>]
                      else products
                  | _ \<Rightarrow> products)))"

definition no_containers_msg :: string where
  "no_containers_msg = ''No containers found with that selector''"

definition no_fields_msg :: string where
  "no_fields_msg = ''Found containers but couldn't extract name/price''"

definition extract_products ::
  "'e collaborators \<Rightarrow> string \<Rightarrow> pyvalue \<Rightarrow> pyvalue \<Rightarrow> pyvalue
     \<Rightarrow> exn + Product list option \<times> string option" where
  "extract_products E html container_sel name_sel price_sel =
     (case soup_select E html container_sel of
        Inl e \<Rightarrow> Inl e
      | Inr containers \<Rightarrow>
          if length containers = 0 then Inr (None, Some no_containers_msg)
          else
            (case products_loop E name_sel price_sel containers [] of
               Inl e \<Rightarrow> Inl e
             | Inr products \<Rightarrow>
                 if length products = 0 then Inr (None, Some no_fields_msg)
                 else Inr (Some products, None)))"

subsection \<open>\<^verbatim>\<open>ask_ai_to_fix\<close>\<close>

definition ask_ai_to_fix ::
  "'e collaborators \<Rightarrow> nat \<Rightarrow> string \<Rightarrow> selectors \<Rightarrow> string option \<Rightarrow> selectors option" where
  \<comment> \<open>the request carries the three selectors, the error and the first 3000 characters\<close>
  "ask_ai_to_fix E k html_snippet current error_message =
     model_reply E k
       (container_selector current, name_selector current, price_selector current,
        error_message, take 3000 html_snippet)"

subsection \<open>\<^verbatim>\<open>run_agent\<close>\<close>

text \<open>
  Every call of \<^verbatim>\<open>fetch_webpage\<close>, \<^verbatim>\<open>extract_products\<close> and \<^verbatim>\<open>ask_ai_to_fix\<close> is
  recorded, with its arguments, in a trace that the run carries along.
\<close>

datatype event =
    Call_fetch string
  | Call_extract string pyvalue pyvalue pyvalue
  | Call_ask string selectors "string option"

fun is_fetch :: "event \<Rightarrow> bool" where
  "is_fetch (Call_fetch _) = True"
| "is_fetch _ = False"

fun is_extract :: "event \<Rightarrow> bool" where
  "is_extract (Call_extract _ _ _ _) = True"
| "is_extract _ = False"

fun is_ask :: "event \<Rightarrow> bool" where
  "is_ask (Call_ask _ _ _) = True"
| "is_ask _ = False"

definition fetch_calls :: "event list \<Rightarrow> nat" where
  "fetch_calls tr = length (filter is_fetch tr)"

definition extract_calls :: "event list \<Rightarrow> nat" where
  "extract_calls tr = length (filter is_extract tr)"

definition ask_calls :: "event list \<Rightarrow> nat" where
  "ask_calls tr = length (filter is_ask tr)"

fun doc_of :: "event \<Rightarrow> string option" where
  \<comment> \<open>the document an Extractor or oracle call was given\<close>
  "doc_of (Call_fetch _) = None"
| "doc_of (Call_extract h _ _ _) = Some h"
| "doc_of (Call_ask h _ _) = Some h"

text \<open>
  The local variables of \<^verbatim>\<open>run_agent\<close>: \<^verbatim>\<open>current_selectors\<close> (a reference),
  \<^verbatim>\<open>html\<close> and \<^verbatim>\<open>error\<close>, together with the store and the trace.
\<close>

record run_state =
  current_selectors :: addr
  html :: "string option"
  error :: "string option"
  objects :: store
  trace :: "event list"

text \<open>
  One pass through the body of the \<^verbatim>\<open>for\<close> loop ends with a \<^verbatim>\<open>return\<close>, with an
  exception that nothing catches, or at the end of the body. The fetch and the call of
  \<^verbatim>\<open>ask_ai_to_fix\<close> are inside a \<^verbatim>\<open>try\<close>; the call of \<^verbatim>\<open>extract_products\<close> is not.
\<close>

datatype step = Return "Product list option" | Raise exn | Continue

fun truthy :: "Product list option \<Rightarrow> bool" where
  \<comment> \<open>\<^verbatim>\<open>if products:\<close> holds for a list that is not empty\<close>
  "truthy None = False"
| "truthy (Some ps) = (ps \<noteq> [])"

definition attempt_body ::
  "'e collaborators \<Rightarrow> string \<Rightarrow> int \<Rightarrow> int \<Rightarrow> run_state \<Rightarrow> step \<times> run_state" where
  "attempt_body E url max_retries attempt st =
     (let st1 = (case html st of
                   None \<Rightarrow> st\<lparr>html := fetch_webpage E url, trace := trace st @ [Call_fetch url]\<rparr>
                 | Some _ \<Rightarrow> st)
      in case html st1 of
           None \<Rightarrow> (Return None, st1)
         | Some doc \<Rightarrow>
             (let cur = deref (objects st1) (current_selectors st1);
                  called = st1\<lparr>trace := trace st1 @
                              [Call_extract doc
                                 (container_selector cur) (name_selector cur) (price_selector cur)]\<rparr>
              in case extract_products E doc
                        (container_selector cur) (name_selector cur) (price_selector cur) of
                   Inl e \<Rightarrow> (Raise e, called)
                 | Inr (products, err) \<Rightarrow>
                     (let st2 = called\<lparr>error := err\<rparr>
                      in if truthy products then (Return products, st2)
                         else if attempt < max_retries then
                           (let st3 = st2\<lparr>trace := trace st2 @ [Call_ask doc cur err]\<rparr> in
                            case ask_ai_to_fix E (ask_calls (trace st2)) doc cur err of
                              None \<Rightarrow> (Continue, st3)
                            | Some new_selectors \<Rightarrow>
                                (let (a, s) = alloc (objects st3) new_selectors
                                 in (Continue, st3\<lparr>current_selectors := a, objects := s\<rparr>)))
                         else (Continue, st2))))"

text \<open>
  A run ends with the value returned (\<open>Inr\<close>) or with the exception that escaped
  (\<open>Inl\<close>).
\<close>

function run_loop ::
  "'e collaborators \<Rightarrow> string \<Rightarrow> int \<Rightarrow> int \<Rightarrow> run_state
     \<Rightarrow> (exn + Product list option) \<times> run_state" where
  "run_loop E url max_retries attempt st =
     (if attempt \<le> max_retries then
        (case attempt_body E url max_retries attempt st of
           (Return r, st') \<Rightarrow> (Inr r, st')
         | (Raise e, st') \<Rightarrow> (Inl e, st')
         | (Continue, st') \<Rightarrow> run_loop E url max_retries (attempt + 1) st')
      else (Inr None, st))"
  by pat_completeness auto
termination
  by (relation "measure (\<lambda>(E, url, max_retries, attempt, st). nat (max_retries + 1 - attempt))") auto

declare run_loop.simps [simp del]

definition run_agent ::
  "'e collaborators \<Rightarrow> string \<Rightarrow> addr \<Rightarrow> int \<Rightarrow> store
     \<Rightarrow> (exn + Product list option) \<times> run_state" where
  "run_agent E url initial_selectors max_retries s =
     (let (a, s1) = dict_copy s initial_selectors
      in run_loop E url max_retries 1
           \<lparr>current_selectors = a, html = None, error = None, objects = s1, trace = []\<rparr>)"

definition run_agent_default ::
  "'e collaborators \<Rightarrow> string \<Rightarrow> addr \<Rightarrow> store \<Rightarrow> (exn + Product list option) \<times> run_state" where
  \<comment> \<open>\<^verbatim>\<open>max_retries=3\<close> when the caller leaves it out\<close>
  "run_agent_default E url initial_selectors s = run_agent E url initial_selectors 3 s"

section \<open>Notions used in the statements\<close>

definition resolved_text :: "'e collaborators \<Rightarrow> 'e \<Rightarrow> pyvalue \<Rightarrow> string" where
  \<comment> \<open>the trimmed text a locator resolves to inside a container, empty when it resolves
      to nothing\<close>
  "resolved_text E c sel = (case field_text E c sel of Inr (Some text) \<Rightarrow> text | _ \<Rightarrow> [])"

definition both_fields_present :: "'e collaborators \<Rightarrow> pyvalue \<Rightarrow> pyvalue \<Rightarrow> 'e \<Rightarrow> bool" where
  "both_fields_present E name_sel price_sel c =
     (resolved_text E c name_sel \<noteq> [] \<and> resolved_text E c price_sel \<noteq> [])"

definition field_missing :: "'e collaborators \<Rightarrow> pyvalue \<Rightarrow> pyvalue \<Rightarrow> 'e \<Rightarrow> bool" where
  \<comment> \<open>both locators were looked up in the container and the name or the price came
      back absent or empty\<close>
  "field_missing E name_sel price_sel c =
     (case (field_text E c name_sel, field_text E c price_sel) of
        (Inr (Some n), Inr (Some p)) \<Rightarrow> n = [] \<or> p = []
      | (Inr _, Inr _) \<Rightarrow> True
      | _ \<Rightarrow> False)"

definition record_of :: "'e collaborators \<Rightarrow> pyvalue \<Rightarrow> pyvalue \<Rightarrow> 'e \<Rightarrow> Product" where
  "record_of E name_sel price_sel c =
     \<lparr>name = resolved_text E c name_sel, price = resolved_text E c price_sel\<rparr>"


fun mentions :: "string \<Rightarrow> string option \<Rightarrow> bool" where
  \<comment> \<open>a failure reason carries a piece of text when the text occurs in it\<close>
  "mentions s None = False"
| "mentions s (Some reason) = sublist s reason"

definition zero_matches :: "'e collaborators \<Rightarrow> pyvalue \<Rightarrow> 'e list \<Rightarrow> bool" where
  \<comment> \<open>the locator matched inside none of the containers\<close>
  "zero_matches E sel containers = list_all (\<lambda>c. select_one E c sel = Inr None) containers"

definition initial_state :: "addr \<Rightarrow> store \<Rightarrow> run_state" where
  \<comment> \<open>the local variables of \<^verbatim>\<open>run_agent\<close> on entry to its loop\<close>
  "initial_state a s = \<lparr>current_selectors = a, html = None, error = None, objects = s, trace = []\<rparr>"

definition current_rule :: "run_state \<Rightarrow> selectors" where
  "current_rule st = deref (objects st) (current_selectors st)"

definition extract_current ::
  "'e collaborators \<Rightarrow> string \<Rightarrow> run_state \<Rightarrow> exn + Product list option \<times> string option" where
  \<comment> \<open>the Extractor applied to a document under the current rule\<close>
  "extract_current E doc st =
     extract_products E doc
       (container_selector (current_rule st)) (name_selector (current_rule st))
       (price_selector (current_rule st))"

definition after_failed_repair :: "string \<Rightarrow> string \<Rightarrow> string option \<Rightarrow> run_state \<Rightarrow> run_state" where
  \<comment> \<open>the state an attempt leaves when extraction failed with reason \<open>err\<close> and the oracle
      failed too: document cached, reason kept, the calls recorded, rule and store as
      they were\<close>
  "after_failed_repair url doc err st =
     st\<lparr>html := Some doc, error := err,
        trace := trace st
          @ (case html st of None \<Rightarrow> [Call_fetch url] | Some _ \<Rightarrow> [])
          @ [Call_extract doc (container_selector (current_rule st))
               (name_selector (current_rule st)) (price_selector (current_rule st)),
             Call_ask doc (current_rule st) err]\<rparr>"

definition cached :: "'e collaborators \<Rightarrow> string \<Rightarrow> run_state \<Rightarrow> bool" where
  \<comment> \<open>between attempts: nothing has happened yet, or the document was fetched once and
      every call so far was given it\<close>
  "cached E url st =
     (case html st of
        None \<Rightarrow> trace st = []
      | Some doc \<Rightarrow>
          fetch_webpage E url = Some doc \<and> fetch_calls (trace st) = 1
          \<and> list_all (\<lambda>ev. is_fetch ev \<or> doc_of ev = Some doc) (trace st))"

definition one_document :: "'e collaborators \<Rightarrow> string \<Rightarrow> run_state \<Rightarrow> bool" where
  \<comment> \<open>at most one fetch, and every Extractor and oracle call was given the cached
      document, which is the one the fetch returned\<close>
  "one_document E url st =
     (fetch_calls (trace st) \<le> 1
      \<and> list_all (\<lambda>ev. is_fetch ev \<or> (doc_of ev = html st \<and> html st = fetch_webpage E url))
            (trace st))"


section \<open>A concrete document and its collaborators\<close>

text \<open>
  A small shop page for evaluating the program: the locator \<^verbatim>\<open>article.product_pod\<close>
  matches four containers, of which the second has an empty name and the fourth has
  neither field; \<^verbatim>\<open>div.card\<close> matches two containers with a name and no price;
  \<^verbatim>\<open>p.row\<close> matches one container with a price and no name. Elements are numbered.
  The selector engine accepts every string but \<^verbatim>\<open>div[\<close>. The generative model answers
  the first request of a run with working selectors and fails on every later one.
\<close>

definition shop_page :: string where
  "shop_page = ''<html>shop</html>''"

definition working_rule :: selectors where
  "working_rule =
     \<lparr>container_selector = Str ''article.product_pod'', name_selector = Str ''h3 a'',
      price_selector = Str ''.price_color''\<rparr>"

definition shop :: "nat collaborators" where
  "shop =
     \<lparr>http_get = (\<lambda>url. if url = ''https://shop.test/'' then Some shop_page else None),
      engine_accepts = (\<lambda>sel. sel \<noteq> ''div[''),
      matches_all = (\<lambda>doc sel.
         if doc \<noteq> shop_page then []
         else if sel = ''article.product_pod'' then [1, 2, 3, 4]
         else if sel = ''div.card'' then [5, 6]
         else if sel = ''p.row'' then [7]
         else []),
      matches_one = (\<lambda>c sel.
         if sel = ''h3 a'' \<and> c \<in> {1, 2, 3, 5, 6} then Some (c + 10)
         else if sel = ''.price_color'' \<and> c \<in> {1, 2, 3, 7} then Some (c + 20)
         else None),
      get_text = (\<lambda>e. if e = 11 then ''Tea'' else if e = 12 then [] else if e < 20 then ''Mug'' else ''9.99''),
      model_reply = (\<lambda>k request. if k = 0 then Some working_rule else None)\<rparr>"

text \<open>
  Three selector dictionaries of the caller: at address 0 a rule whose container locator
  matches nothing, at address 1 a rule whose containers have no price, at address 2 a
  rule that works.
\<close>

definition shop_store :: store where
  "shop_store =
     \<lparr>cells = (\<lambda>a.
        if a = 0 then working_rule\<lparr>container_selector := Str ''ul.none''\<rparr>
        else if a = 1 then working_rule\<lparr>container_selector := Str ''div.card''\<rparr>
        else working_rule),
      next_free = 3\<rparr>"

definition oracle_down :: "'e collaborators \<Rightarrow> 'e collaborators" where
  \<comment> \<open>the same collaborators with a generative model that fails on every request\<close>
  "oracle_down E = E\<lparr>model_reply := (\<lambda>k request. None)\<rparr>"

definition oracle_flaky :: "'e collaborators \<Rightarrow> 'e collaborators" where
  \<comment> \<open>a generative model whose first answer is a rule that still fails (containers
      without a price) and that fails on every later request\<close>
  "oracle_flaky E =
     E\<lparr>model_reply := (\<lambda>k request.
          if k = 0 then Some (working_rule\<lparr>container_selector := Str ''div.card''\<rparr>) else None)\<rparr>"



definition repaired_once :: run_state where
  \<comment> \<open>the state after the first attempt of a run under \<open>oracle_flaky shop\<close> from the rule
      at address 0: the page is cached and repair has replaced the rule\<close>
  "repaired_once =
     snd (attempt_body (oracle_flaky shop) ''https://shop.test/'' 4 1
            (initial_state (fst (dict_copy shop_store 0)) (snd (dict_copy shop_store 0))))"

section \<open>The Extractor\<close>

lemma field_text_cases:
  "field_text E c sel =
     (if accepted E sel
      then Inr (case sel of Str s \<Rightarrow> map_option (get_text E) (matches_one E c s) | Other \<Rightarrow> None)
      else Inl SelectorError)"
  by (cases sel) (auto simp: field_text_def split: option.splits)

lemma resolved_text_nonempty_accepted:
  "resolved_text E c sel \<noteq> [] \<Longrightarrow> accepted E sel"
  by (auto simp: resolved_text_def field_text_cases split: if_splits)

lemma products_loop_rejected:
  "containers \<noteq> [] \<Longrightarrow> \<not> (accepted E ns \<and> accepted E ps) \<Longrightarrow>
   products_loop E ns ps containers acc = Inl SelectorError"
  by (cases containers) (auto simp: field_text_cases)

lemma products_loop_eq:
  "accepted E ns \<Longrightarrow> accepted E ps \<Longrightarrow>
   products_loop E ns ps containers acc =
     Inr (acc @ map (record_of E ns ps) (filter (both_fields_present E ns ps) containers))"
  by (induction containers arbitrary: acc)
     (auto simp: field_text_cases record_of_def both_fields_present_def resolved_text_def
           split: option.splits pyvalue.splits)

lemma extract_products_eq:
  "extract_products E doc cs ns ps =
     (case soup_select E doc cs of
        Inl e \<Rightarrow> Inl e
      | Inr containers \<Rightarrow>
          if containers = [] then Inr (None, Some no_containers_msg)
          else if \<not> (accepted E ns \<and> accepted E ps) then Inl SelectorError
          else if filter (both_fields_present E ns ps) containers = []
               then Inr (None, Some no_fields_msg)
          else Inr (Some (map (record_of E ns ps)
                        (filter (both_fields_present E ns ps) containers)), None))"
  by (auto simp: extract_products_def products_loop_eq products_loop_rejected
           split: sum.splits)

lemma field_missing_iff:
  "field_missing E ns ps c \<longleftrightarrow>
     accepted E ns \<and> accepted E ps \<and> \<not> both_fields_present E ns ps c"
  by (auto simp: field_missing_def both_fields_present_def resolved_text_def field_text_cases
           split: option.splits pyvalue.splits)

lemma shop_simps:
  "http_get shop = (\<lambda>url. if url = ''https://shop.test/'' then Some shop_page else None)"
  "engine_accepts shop sel = (sel \<noteq> ''div['')"
  "matches_all shop shop_page ''article.product_pod'' = [1, 2, 3, 4]"
  "matches_all shop shop_page ''div.card'' = [5, 6]"
  "matches_all shop shop_page ''p.row'' = [7]"
  "matches_all shop shop_page ''ul.none'' = []"
  "matches_all shop shop_page ''ol.other'' = []"
  "matches_one shop c ''h3 a'' = (if c \<in> {1, 2, 3, 5, 6} then Some (c + 10) else None)"
  "matches_one shop c ''.price_color'' = (if c \<in> {1, 2, 3, 7} then Some (c + 20) else None)"
  by (auto simp: shop_def)

lemma shop_text:
  "resolved_text shop c (Str ''h3 a'') =
     (if c = 1 then ''Tea'' else if c = 2 then [] else if c \<in> {3, 5, 6} then ''Mug'' else [])"
  "resolved_text shop c (Str ''.price_color'') = (if c \<in> {1, 2, 3, 7} then ''9.99'' else [])"
  by (auto simp: shop_simps shop_def resolved_text_def field_text_def)

text \<open>
  Claim C4. When at least one matched container has both fields present,
  \<^verbatim>\<open>extract_products\<close> succeeds; its records are those of the containers on which both
  the name and the price locator resolved to non-empty text, one per container and in
  document order, so their number is the number of such containers, and no record has
  an empty name or price.
\<close>

theorem extract_products_success:
  assumes "soup_select E doc cs = Inr containers"
    and "\<exists>c\<in>set containers. both_fields_present E ns ps c"
  shows "\<exists>products.
           extract_products E doc cs ns ps = Inr (Some products, None)
         \<and> products = map (record_of E ns ps) (filter (both_fields_present E ns ps) containers)
         \<and> length products = length (filter (both_fields_present E ns ps) containers)
         \<and> (\<forall>p\<in>set products. name p \<noteq> [] \<and> price p \<noteq> [])"
proof -
  let ?kept = "filter (both_fields_present E ns ps) containers"
  from assms(2) have containers: "containers \<noteq> []" by auto
  from assms(2) have kept: "?kept \<noteq> []" by (auto simp: filter_empty_conv)
  from assms(2) have "accepted E ns" "accepted E ps"
    by (auto simp: both_fields_present_def dest: resolved_text_nonempty_accepted)
  then have "extract_products E doc cs ns ps = Inr (Some (map (record_of E ns ps) ?kept), None)"
    using assms(1) containers kept by (simp add: extract_products_eq)
  moreover have "\<forall>p\<in>set (map (record_of E ns ps) ?kept). name p \<noteq> [] \<and> price p \<noteq> []"
    by (auto simp: record_of_def both_fields_present_def)
  ultimately show ?thesis by simp
qed

theorem extract_products_success_witness:
  "soup_select shop shop_page (Str ''article.product_pod'') = Inr [1, 2, 3, 4]
   \<and> both_fields_present shop (Str ''h3 a'') (Str ''.price_color'') 1
   \<and> extract_products shop shop_page (Str ''article.product_pod'') (Str ''h3 a'') (Str ''.price_color'')
       = Inr (Some [\<lparr>name = ''Tea'', price = ''9.99''\<rparr>, \<lparr>name = ''Mug'', price = ''9.99''\<rparr>], None)"
proof -
  have h1: "soup_select shop shop_page (Str ''article.product_pod'') = Inr [1, 2, 3, 4]"
    by (simp add: shop_simps)
  have h2: "\<exists>c\<in>set [1, 2, 3, 4]. both_fields_present shop (Str ''h3 a'') (Str ''.price_color'') c"
    by (simp add: both_fields_present_def shop_text)
  show ?thesis
    using h1 extract_products_success [OF h1 h2]
    by (auto simp: both_fields_present_def shop_text record_of_def)
qed

text \<open>
  Claim C5, as amended. When the container locator matches no element,
  \<^verbatim>\<open>extract_products\<close> returns no record sequence and the fixed failure reason
  ``No containers found with that selector'', which does not name the locator.
\<close>

theorem extract_products_no_containers:
  "soup_select E doc cs = Inr [] \<Longrightarrow>
   extract_products E doc cs ns ps
     = Inr (None, Some ''No containers found with that selector'')"
  by (simp add: extract_products_def no_containers_msg_def)

theorem extract_products_no_containers_witness:
  "soup_select shop shop_page (Str ''ul.none'') = Inr []
   \<and> extract_products shop shop_page (Str ''ul.none'') (Str ''h3 a'') (Str ''.price_color'')
       = Inr (None, Some ''No containers found with that selector'')"
  using extract_products_no_containers
          [of shop shop_page "Str ''ul.none''" "Str ''h3 a''" "Str ''.price_color''"]
  by (simp add: shop_simps)

text \<open>
  Claim C5 as stated fails: the locator \<^verbatim>\<open>ul.none\<close> matches nothing, the reason
  returned does not contain it, and another locator that matches nothing gives the very
  same reason.
\<close>

theorem no_containers_reason_counterexample:
  "soup_select shop shop_page (Str ''ul.none'') = Inr []
   \<and> extract_products shop shop_page (Str ''ul.none'') (Str ''h3 a'') (Str ''.price_color'')
       = Inr (None, Some no_containers_msg)
   \<and> \<not> mentions ''ul.none'' (Some no_containers_msg)
   \<and> extract_products shop shop_page (Str ''ol.other'') (Str ''h3 a'') (Str ''.price_color'')
       = Inr (None, Some no_containers_msg)"
proof -
  have "\<not> sublist ''ul.none'' no_containers_msg"
    unfolding no_containers_msg_def by code_simp
  then show ?thesis
    by (simp add: extract_products_eq shop_simps)
qed

text \<open>
  Claim C6, as amended. When containers are matched and every one of them lacks the
  name or the price, \<^verbatim>\<open>extract_products\<close> returns no record sequence and the fixed
  failure reason ``Found containers but couldn't extract name/price'', which gives
  neither the number of containers nor the locator that matched nowhere. A container
  lacks a field when the two lookups in it came back and one of them found no element
  or an empty text (\<open>field_missing\<close>; lemma \<open>field_missing_iff\<close> relates it to
  \<open>both_fields_present\<close>).
\<close>

theorem extract_products_no_fields:
  "soup_select E doc cs = Inr containers \<Longrightarrow> containers \<noteq> [] \<Longrightarrow>
   \<forall>c\<in>set containers. field_missing E ns ps c \<Longrightarrow>
   extract_products E doc cs ns ps
     = Inr (None, Some ''Found containers but couldn't extract name/price'')"
  by (cases containers)
     (auto simp: extract_products_eq filter_empty_conv no_fields_msg_def field_missing_iff)

theorem extract_products_no_fields_witness:
  "soup_select shop shop_page (Str ''div.card'') = Inr [5, 6]
   \<and> field_missing shop (Str ''h3 a'') (Str ''.price_color'') 5
   \<and> field_missing shop (Str ''h3 a'') (Str ''.price_color'') 6
   \<and> extract_products shop shop_page (Str ''div.card'') (Str ''h3 a'') (Str ''.price_color'')
       = Inr (None, Some ''Found containers but couldn't extract name/price'')"
proof -
  have h1: "soup_select shop shop_page (Str ''div.card'') = Inr [5, 6]"
    by (simp add: shop_simps)
  have h2: "[5, 6] \<noteq> ([] :: nat list)"
    by simp
  have h3: "\<forall>c\<in>set [5, 6]. field_missing shop (Str ''h3 a'') (Str ''.price_color'') c"
    by (simp add: field_missing_iff shop_simps both_fields_present_def shop_text)
  show ?thesis
    using h1 h3 extract_products_no_fields [OF h1 h2 h3] by simp
qed

text \<open>
  Claim C6 as stated fails: two containers whose price locator matched nowhere and one
  container whose name locator matched nowhere yield the same result, and the reason
  contains neither the count nor the locator.
\<close>

theorem no_fields_reason_counterexample:
  "soup_select shop shop_page (Str ''div.card'') = Inr [5, 6]
   \<and> zero_matches shop (Str ''.price_color'') [5, 6]
   \<and> \<not> zero_matches shop (Str ''h3 a'') [5, 6]
   \<and> soup_select shop shop_page (Str ''p.row'') = Inr [7]
   \<and> zero_matches shop (Str ''h3 a'') [7]
   \<and> \<not> zero_matches shop (Str ''.price_color'') [7]
   \<and> extract_products shop shop_page (Str ''div.card'') (Str ''h3 a'') (Str ''.price_color'')
       = Inr (None, Some no_fields_msg)
   \<and> extract_products shop shop_page (Str ''p.row'') (Str ''h3 a'') (Str ''.price_color'')
       = Inr (None, Some no_fields_msg)
   \<and> \<not> mentions ''2'' (Some no_fields_msg)
   \<and> \<not> mentions ''.price_color'' (Some no_fields_msg)"
proof -
  have "\<not> sublist ''2'' no_fields_msg" "\<not> sublist ''.price_color'' no_fields_msg"
    unfolding no_fields_msg_def by code_simp+
  then show ?thesis
    by (simp add: extract_products_eq shop_simps zero_matches_def
                  both_fields_present_def shop_text)
qed

section \<open>The Agent Loop\<close>

lemma calls_append [simp]:
  "fetch_calls (xs @ ys) = fetch_calls xs + fetch_calls ys"
  "extract_calls (xs @ ys) = extract_calls xs + extract_calls ys"
  "ask_calls (xs @ ys) = ask_calls xs + ask_calls ys"
  by (simp_all add: fetch_calls_def extract_calls_def ask_calls_def)

lemma calls_Nil [simp]:
  "fetch_calls [] = 0" "extract_calls [] = 0" "ask_calls [] = 0"
  by (simp_all add: fetch_calls_def extract_calls_def ask_calls_def)

lemma calls_Cons [simp]:
  "fetch_calls (ev # tr) = (if is_fetch ev then 1 else 0) + fetch_calls tr"
  "extract_calls (ev # tr) = (if is_extract ev then 1 else 0) + extract_calls tr"
  "ask_calls (ev # tr) = (if is_ask ev then 1 else 0) + ask_calls tr"
  by (simp_all add: fetch_calls_def extract_calls_def ask_calls_def)

lemma run_loop_stop: "\<not> a \<le> m \<Longrightarrow> run_loop E url m a st = (Inr None, st)"
  by (simp add: run_loop.simps)

lemma run_loop_return:
  "a \<le> m \<Longrightarrow> attempt_body E url m a st = (Return r, st') \<Longrightarrow>
   run_loop E url m a st = (Inr r, st')"
  by (simp add: run_loop.simps)

lemma run_loop_raise:
  "a \<le> m \<Longrightarrow> attempt_body E url m a st = (Raise e, st') \<Longrightarrow>
   run_loop E url m a st = (Inl e, st')"
  by (simp add: run_loop.simps)

lemma run_loop_continue:
  "a \<le> m \<Longrightarrow> attempt_body E url m a st = (Continue, st') \<Longrightarrow>
   run_loop E url m a st = run_loop E url m (a + 1) st'"
  by (simp add: run_loop.simps)

lemma run_agent_eq:
  "run_agent E url init m s =
     run_loop E url m 1 (initial_state (next_free s)
        (s\<lparr>cells := (cells s)(next_free s := cells s init), next_free := Suc (next_free s)\<rparr>))"
  by (simp add: run_agent_def dict_copy_def alloc_def deref_def initial_state_def)

lemma run_loop_invariant:
  assumes "I st"
    and "\<And>a st st'. I st \<Longrightarrow> attempt_body E url m a st = (Continue, st') \<Longrightarrow> I st'"
    and "\<And>a st r st'. I st \<Longrightarrow> attempt_body E url m a st = (Return r, st') \<Longrightarrow> Q (Inr r) st'"
    and "\<And>a st e st'. I st \<Longrightarrow> attempt_body E url m a st = (Raise e, st') \<Longrightarrow> Q (Inl e) st'"
    and "\<And>st. I st \<Longrightarrow> Q (Inr None) st"
  shows "Q (fst (run_loop E url m a st)) (snd (run_loop E url m a st))"
  using assms
proof (induction E url m a st rule: run_loop.induct)
  case (1 E url m a st)
  note inv = "1.prems"(1) and keep = "1.prems"(2) and ret = "1.prems"(3)
    and exc = "1.prems"(4) and stop = "1.prems"(5)
  show ?case
  proof (cases "a \<le> m")
    case False
    with stop [OF inv] show ?thesis by (simp add: run_loop_stop)
  next
    case True
    obtain stp st1 where body: "attempt_body E url m a st = (stp, st1)"
      by (cases "attempt_body E url m a st")
    show ?thesis
    proof (cases stp)
      case (Return r)
      with body have b: "attempt_body E url m a st = (Return r, st1)" by simp
      from ret [OF inv b] run_loop_return [OF True b] show ?thesis by simp
    next
      case (Raise e)
      with body have b: "attempt_body E url m a st = (Raise e, st1)" by simp
      from exc [OF inv b] run_loop_raise [OF True b] show ?thesis by simp
    next
      case Continue
      with body have c: "attempt_body E url m a st = (Continue, st1)" by simp
      from keep [OF inv c] have "I st1" .
      from "1.IH" [OF True body [symmetric] Continue this keep ret exc stop]
        run_loop_continue [OF True c]
      show ?thesis by simp
    qed
  qed
qed

subsection \<open>Call budget\<close>

lemma attempt_body_calls:
  assumes "attempt_body E url m a st = (r, st')"
  shows "extract_calls (trace st') \<le> Suc (extract_calls (trace st))"
    and "ask_calls (trace st') \<le> ask_calls (trace st) + (if a < m then 1 else 0)"
  using assms
  by (auto simp: attempt_body_def Let_def alloc_def
           split: option.splits prod.splits if_splits sum.splits)

lemma run_loop_calls:
  "run_loop E url m a st = (r, st') \<Longrightarrow>
     extract_calls (trace st') \<le> extract_calls (trace st) + nat (m + 1 - a)
   \<and> ask_calls (trace st') \<le> ask_calls (trace st) + nat (m - a)"
proof (induction E url m a st arbitrary: r st' rule: run_loop.induct)
  case (1 E url m a st)
  show ?case
  proof (cases "a \<le> m")
    case False
    with "1.prems" show ?thesis by (simp add: run_loop.simps)
  next
    case True
    obtain stp st1 where body: "attempt_body E url m a st = (stp, st1)"
      by (cases "attempt_body E url m a st")
    note b = attempt_body_calls [OF body]
    show ?thesis
    proof (cases stp)
      case (Return x)
      with True body "1.prems" have "st' = st1" by (simp add: run_loop.simps)
      with b True show ?thesis by (auto split: if_splits)
    next
      case (Raise e)
      with True body "1.prems" have "st' = st1" by (simp add: run_loop.simps)
      with b True show ?thesis by (auto split: if_splits)
    next
      case Continue
      with True body "1.prems" have "run_loop E url m (a + 1) st1 = (r, st')"
        by (simp add: run_loop.simps)
      from "1.IH" [OF True body [symmetric] Continue this] b True
      show ?thesis by (auto split: if_splits)
    qed
  qed
qed

text \<open>
  Claim C3, as amended. A run with maximum attempts \<open>m\<close> calls the Extractor at most
  \<open>m\<close> times and the oracle at most \<open>m - 1\<close> times when \<open>m \<ge> 1\<close>, and calls neither when
  \<open>m \<le> 0\<close>.
\<close>

theorem run_agent_call_bounds:
  "extract_calls (trace (snd (run_agent E url init m s))) \<le> nat m
   \<and> ask_calls (trace (snd (run_agent E url init m s))) \<le> nat (m - 1)"
proof -
  obtain r st' where run: "run_agent E url init m s = (r, st')"
    by (cases "run_agent E url init m s")
  from run_loop_calls [OF run [unfolded run_agent_eq]] run
  show ?thesis by (simp add: initial_state_def)
qed

text \<open>
  Claim C3 as stated fails for \<open>m = 0\<close>: the run makes no oracle call, which is more
  than \<open>m - 1 = -1\<close>.
\<close>

theorem call_bounds_counterexample:
  "\<not> (int (extract_calls (trace (snd (run_agent shop ''https://shop.test/'' 0 0 shop_store)))) \<le> 0
       \<and> int (ask_calls (trace (snd (run_agent shop ''https://shop.test/'' 0 0 shop_store)))) \<le> 0 - 1)"
  by (simp add: run_agent_eq run_loop_stop initial_state_def)

text \<open>
  Claim C10. With maximum attempts 0 the run returns the failure outcome \<^verbatim>\<open>None\<close>; its
  trace is empty, so the document was not fetched and neither the Extractor nor the
  oracle was called.
\<close>

theorem run_agent_zero_attempts:
  "fst (run_agent E url init 0 s) = Inr None
   \<and> trace (snd (run_agent E url init 0 s)) = []
   \<and> html (snd (run_agent E url init 0 s)) = None"
  by (simp add: run_agent_eq run_loop_stop initial_state_def)

subsection \<open>Fetching\<close>

lemma attempt_body_fetch_fails:
  "html st = None \<Longrightarrow> fetch_webpage E url = None \<Longrightarrow>
   attempt_body E url m a st = (Return None, st\<lparr>html := None, trace := trace st @ [Call_fetch url]\<rparr>)"
  by (simp add: attempt_body_def)

text \<open>
  Claim C7. When the fetch fails, the run returns the failure outcome at once: the only
  call it ever makes is the one fetch, so the Extractor and the oracle are never called
  and the fetch is not repeated.
\<close>

theorem run_agent_fetch_fails:
  assumes "fetch_webpage E url = None"
  shows "fst (run_agent E url init m s) = Inr None
       \<and> trace (snd (run_agent E url init m s)) = (if 1 \<le> m then [Call_fetch url] else [])
       \<and> extract_calls (trace (snd (run_agent E url init m s))) = 0
       \<and> ask_calls (trace (snd (run_agent E url init m s))) = 0
       \<and> fetch_calls (trace (snd (run_agent E url init m s))) \<le> 1"
proof (cases "1 \<le> m")
  case True
  have "html (initial_state a s') = None" for a s'
    by (simp add: initial_state_def)
  from run_loop_return [OF True attempt_body_fetch_fails [OF this assms]] True
  show ?thesis by (simp add: run_agent_eq initial_state_def)
next
  case False
  then show ?thesis by (simp add: run_agent_eq run_loop_stop initial_state_def)
qed

theorem run_agent_fetch_fails_witness:
  "fetch_webpage shop ''https://nowhere.test/'' = None
   \<and> fst (run_agent shop ''https://nowhere.test/'' 0 3 shop_store) = Inr None
   \<and> trace (snd (run_agent shop ''https://nowhere.test/'' 0 3 shop_store))
       = [Call_fetch ''https://nowhere.test/'']"
proof -
  have h: "fetch_webpage shop ''https://nowhere.test/'' = None"
    by (simp add: fetch_webpage_def shop_def)
  show ?thesis
    using h run_agent_fetch_fails [OF h, of 0 3 shop_store] by simp
qed

lemma attempt_body_cached:
  assumes "cached E url st" "attempt_body E url m a st = (Continue, st')"
  shows "cached E url st'"
  using assms
  by (auto simp: attempt_body_def cached_def Let_def alloc_def
           split: option.splits prod.splits if_splits sum.splits)

lemma attempt_body_one_document:
  assumes "cached E url st" "attempt_body E url m a st = (stp, st')" "stp \<noteq> Continue"
  shows "one_document E url st'"
  using assms
  by (auto simp: attempt_body_def cached_def one_document_def Let_def alloc_def list_all_iff
           split: option.splits prod.splits if_splits sum.splits)

lemma cached_one_document: "cached E url st \<Longrightarrow> one_document E url st"
  by (auto simp: cached_def one_document_def list_all_iff split: option.splits)

lemma run_agent_one_document:
  "one_document E url (snd (run_agent E url init m s))"
proof -
  have "cached E url (initial_state a s')" for a s'
    by (simp add: cached_def initial_state_def)
  then show ?thesis
    unfolding run_agent_eq
    by (rule run_loop_invariant [where Q = "\<lambda>r. one_document E url"])
       (auto intro: attempt_body_cached attempt_body_one_document cached_one_document)
qed

text \<open>
  Claim C8. A run fetches the document at most once, and every call of the Extractor
  and of the oracle in the run is given the same document, the cached one that the
  fetch returned; the rule is the only argument that differs between attempts.
\<close>

theorem run_agent_same_document:
  "fetch_calls (trace (snd (run_agent E url init m s))) \<le> 1
   \<and> list_all
        (\<lambda>ev. is_fetch ev
             \<or> (doc_of ev = html (snd (run_agent E url init m s))
                \<and> html (snd (run_agent E url init m s)) = fetch_webpage E url))
        (trace (snd (run_agent E url init m s)))"
  using run_agent_one_document [of E url init m s] by (simp add: one_document_def)

text \<open>
  A run in which repair replaces the rule: one fetch, two Extractor calls with different
  rules and one oracle call, all on the page fetched.
\<close>

theorem run_agent_same_document_witness:
  "trace (snd (run_agent shop ''https://shop.test/'' 0 3 shop_store))
     = [Call_fetch ''https://shop.test/'',
        Call_extract shop_page (Str ''ul.none'') (Str ''h3 a'') (Str ''.price_color''),
        Call_ask shop_page (deref shop_store 0) (Some no_containers_msg),
        Call_extract shop_page (Str ''article.product_pod'') (Str ''h3 a'') (Str ''.price_color'')]
   \<and> html (snd (run_agent shop ''https://shop.test/'' 0 3 shop_store)) = Some shop_page
   \<and> fetch_calls (trace (snd (run_agent shop ''https://shop.test/'' 0 3 shop_store))) \<le> 1
   \<and> list_all
        (\<lambda>ev. is_fetch ev
             \<or> (doc_of ev = html (snd (run_agent shop ''https://shop.test/'' 0 3 shop_store))
                \<and> html (snd (run_agent shop ''https://shop.test/'' 0 3 shop_store))
                    = fetch_webpage shop ''https://shop.test/''))
        (trace (snd (run_agent shop ''https://shop.test/'' 0 3 shop_store)))"
proof -
  have "trace (snd (run_agent shop ''https://shop.test/'' 0 3 shop_store))
     = [Call_fetch ''https://shop.test/'',
        Call_extract shop_page (Str ''ul.none'') (Str ''h3 a'') (Str ''.price_color''),
        Call_ask shop_page (deref shop_store 0) (Some no_containers_msg),
        Call_extract shop_page (Str ''article.product_pod'') (Str ''h3 a'') (Str ''.price_color'')]"
    by code_simp
  moreover have "html (snd (run_agent shop ''https://shop.test/'' 0 3 shop_store)) = Some shop_page"
    by code_simp
  ultimately show ?thesis
    using run_agent_same_document [of shop "''https://shop.test/''" 0 3 shop_store]
    by blast
qed

subsection \<open>The caller's dictionary\<close>

lemma attempt_body_store:
  assumes "attempt_body E url m a st = (stp, st')"
    and "x < n" "n \<le> next_free (objects st)" "cells (objects st) x = v"
  shows "n \<le> next_free (objects st') \<and> cells (objects st') x = v"
  using assms
  by (auto simp: attempt_body_def Let_def alloc_def
           split: option.splits prod.splits if_splits sum.splits)

text \<open>
  Claim C9. The dictionary the caller passed holds after the run the values it held at
  the call: the run works on a copy, and a repaired rule is a new dictionary.
\<close>

theorem run_agent_keeps_initial_selectors:
  assumes "initial_selectors < next_free s"
  shows "deref (objects (snd (run_agent E url initial_selectors m s))) initial_selectors
           = deref s initial_selectors"
proof -
  let ?I = "\<lambda>st. Suc (next_free s) \<le> next_free (objects st)
                \<and> cells (objects st) initial_selectors = cells s initial_selectors"
  let ?s1 = "s\<lparr>cells := (cells s)(next_free s := cells s initial_selectors),
                next_free := Suc (next_free s)\<rparr>"
  have start: "?I (initial_state (next_free s) ?s1)"
    using assms by (simp add: initial_state_def)
  have less: "initial_selectors < Suc (next_free s)"
    using assms by simp
  have "?I (snd (run_loop E url m 1 (initial_state (next_free s) ?s1)))"
    by (rule run_loop_invariant [where I = ?I and Q = "\<lambda>r. ?I", OF start])
       (use attempt_body_store [OF _ less] in blast)+
  then show ?thesis by (simp add: run_agent_eq deref_def)
qed

text \<open>
  In this run repair replaced the current rule, and the caller's dictionary at address 0
  still holds the rule it was called with.
\<close>

theorem run_agent_keeps_initial_selectors_witness:
  "deref (objects (snd (run_agent shop ''https://shop.test/'' 0 3 shop_store))) 0
     = \<lparr>container_selector = Str ''ul.none'', name_selector = Str ''h3 a'',
          price_selector = Str ''.price_color''\<rparr>
   \<and> deref (objects (snd (run_agent shop ''https://shop.test/'' 0 3 shop_store)))
        (current_selectors (snd (run_agent shop ''https://shop.test/'' 0 3 shop_store)))
     = \<lparr>container_selector = Str ''article.product_pod'', name_selector = Str ''h3 a'',
          price_selector = Str ''.price_color''\<rparr>"
proof -
  have h: "0 < next_free shop_store"
    by (simp add: shop_store_def)
  have "deref (objects (snd (run_agent shop ''https://shop.test/'' 0 3 shop_store)))
        (current_selectors (snd (run_agent shop ''https://shop.test/'' 0 3 shop_store)))
     = \<lparr>container_selector = Str ''article.product_pod'', name_selector = Str ''h3 a'',
          price_selector = Str ''.price_color''\<rparr>"
    by code_simp
  then show ?thesis
    using run_agent_keeps_initial_selectors [OF h, of shop "''https://shop.test/''" 3]
    by (simp add: shop_store_def deref_def working_rule_def)
qed

subsection \<open>What the caller receives\<close>






subsection \<open>A failing oracle\<close>

lemma attempt_body_failed_repair:
  assumes "html st = Some doc \<or> html st = None \<and> fetch_webpage E url = Some doc"
    and "extract_current E doc st = Inr (None, err)"
    and "a < m"
    and "ask_ai_to_fix E (ask_calls (trace st)) doc (current_rule st) err = None"
  shows "attempt_body E url m a st = (Continue, after_failed_repair url doc err st)"
  using assms
  by (auto simp: attempt_body_def Let_def extract_current_def current_rule_def
                 after_failed_repair_def)

lemma attempt_body_last_attempt:
  assumes "html st = Some doc \<or> html st = None \<and> fetch_webpage E url = Some doc"
    and "extract_current E doc st = Inr (None, err)"
    and "\<not> a < m"
  shows "\<exists>st'. attempt_body E url m a st = (Continue, st')
           \<and> html st' = Some doc \<and> error st' = err
           \<and> current_selectors st' = current_selectors st \<and> objects st' = objects st
           \<and> extract_calls (trace st') = Suc (extract_calls (trace st))
           \<and> ask_calls (trace st') = ask_calls (trace st)"
  using assms
  by (auto simp: attempt_body_def Let_def extract_current_def current_rule_def)

lemma after_failed_repair_simps:
  "html (after_failed_repair url doc err st) = Some doc"
  "error (after_failed_repair url doc err st) = err"
  "current_selectors (after_failed_repair url doc err st) = current_selectors st"
  "objects (after_failed_repair url doc err st) = objects st"
  "current_rule (after_failed_repair url doc err st) = current_rule st"
  "extract_calls (trace (after_failed_repair url doc err st)) = Suc (extract_calls (trace st))"
  "ask_calls (trace (after_failed_repair url doc err st)) = Suc (ask_calls (trace st))"
  by (auto simp: after_failed_repair_def current_rule_def split: option.splits)

lemma run_loop_oracle_fails:
  assumes "html st = Some doc \<or> html st = None \<and> fetch_webpage E url = Some doc"
    and "extract_current E doc st = Inr (None, err)"
    and "\<forall>k request. model_reply E k request = None"
  shows "\<exists>st'. run_loop E url m a st = (Inr None, st')
           \<and> error st' = (if a \<le> m then err else error st)
           \<and> current_rule st' = current_rule st
           \<and> extract_calls (trace st') = extract_calls (trace st) + nat (m + 1 - a)
           \<and> ask_calls (trace st') = ask_calls (trace st) + nat (m - a)"
  using assms
proof (induction E url m a st rule: run_loop.induct)
  case (1 E url m a st)
  show ?case
  proof (cases "a \<le> m")
    case False
    then show ?thesis by (simp add: run_loop_stop)
  next
    case True
    obtain st1 where body: "attempt_body E url m a st = (Continue, st1)"
      and st1: "html st1 = Some doc" "error st1 = err" "current_rule st1 = current_rule st"
        "extract_calls (trace st1) = Suc (extract_calls (trace st))"
        "ask_calls (trace st1) = ask_calls (trace st) + (if a < m then 1 else 0)"
    proof (cases "a < m")
      case True
      have "ask_ai_to_fix E (ask_calls (trace st)) doc (current_rule st) err = None"
        using "1.prems"(3) by (simp add: ask_ai_to_fix_def)
      from attempt_body_failed_repair [OF "1.prems"(1,2) True this]
      have "attempt_body E url m a st = (Continue, after_failed_repair url doc err st)" .
      then show ?thesis
        using True
        by (intro that [of "after_failed_repair url doc err st"])
           (simp_all add: after_failed_repair_simps)
    next
      case False
      from attempt_body_last_attempt [OF "1.prems"(1,2) False]
      obtain st1 where "attempt_body E url m a st = (Continue, st1)"
        and "html st1 = Some doc" "error st1 = err"
        and "current_selectors st1 = current_selectors st" "objects st1 = objects st"
        and "extract_calls (trace st1) = Suc (extract_calls (trace st))"
        and "ask_calls (trace st1) = ask_calls (trace st)"
        by (elim exE conjE)
      then show ?thesis
        using False by (intro that [of st1]) (simp_all add: current_rule_def)
    qed
    have h1: "html st1 = Some doc \<or> html st1 = None \<and> fetch_webpage E url = Some doc"
      using st1 by simp
    have h2: "extract_current E doc st1 = Inr (None, err)"
      using st1 "1.prems"(2) by (simp add: extract_current_def)
    from "1.IH" [OF True body [symmetric] refl h1 h2 "1.prems"(3)]
    obtain st' where run: "run_loop E url m (a + 1) st1 = (Inr None, st')"
      and st': "error st' = (if a + 1 \<le> m then err else error st1)"
        "current_rule st' = current_rule st1"
        "extract_calls (trace st') = extract_calls (trace st1) + nat (m + 1 - (a + 1))"
        "ask_calls (trace st') = ask_calls (trace st1) + nat (m - (a + 1))"
      by (elim exE conjE)
    from run run_loop_continue [OF True body]
    have "run_loop E url m a st = (Inr None, st')" by simp
    moreover from True st1 st'
    have "extract_calls (trace st') = extract_calls (trace st) + nat (m + 1 - a)"
      by (simp add: nat_add_distrib)
    moreover from True st1 st'
    have "ask_calls (trace st') = ask_calls (trace st) + nat (m - a)"
      by (auto simp: nat_add_distrib split: if_splits)
    ultimately show ?thesis using True st1 st' by simp
  qed
qed

text \<open>
  Claim C1, as amended. A failing oracle does not end the run. First part: in any
  attempt before the last, from any state of the loop (also after earlier repairs),
  when the extraction under the current rule fails and \<^verbatim>\<open>ask_ai_to_fix\<close> raises, the
  attempt ends with the rule and the store as they were, and the loop goes on with the
  next attempt. Second part: when the fetch succeeds, the initial rule fails on the
  document and the oracle fails on every request, a run with maximum attempts \<open>m\<close>
  returns the failure outcome after \<open>m\<close> Extractor calls and \<open>m - 1\<close> oracle calls (none
  of either when \<open>m \<le> 0\<close>), with the rule unchanged and the last failure reason that of
  the initial rule.
\<close>

theorem oracle_failure_continues:
  "((html st = Some doc \<or> html st = None \<and> fetch_webpage E url = Some doc)
     \<and> extract_current E doc st = Inr (None, err)
     \<and> a < m
     \<and> ask_ai_to_fix E (ask_calls (trace st)) doc (current_rule st) err = None
    \<longrightarrow> attempt_body E url m a st = (Continue, after_failed_repair url doc err st)
        \<and> run_loop E url m a st = run_loop E url m (a + 1) (after_failed_repair url doc err st))
   \<and> (fetch_webpage E url = Some doc
      \<and> extract_products E doc
           (container_selector (deref s init)) (name_selector (deref s init))
           (price_selector (deref s init)) = Inr (None, err)
      \<and> (\<forall>k request. model_reply E k request = None)
    \<longrightarrow> fst (run_agent E url init m s) = Inr None
        \<and> extract_calls (trace (snd (run_agent E url init m s))) = nat m
        \<and> ask_calls (trace (snd (run_agent E url init m s))) = nat (m - 1)
        \<and> current_rule (snd (run_agent E url init m s)) = deref s init
        \<and> error (snd (run_agent E url init m s)) = (if 1 \<le> m then err else None))"
proof (intro conjI impI)
  assume h: "(html st = Some doc \<or> html st = None \<and> fetch_webpage E url = Some doc)
     \<and> extract_current E doc st = Inr (None, err)
     \<and> a < m
     \<and> ask_ai_to_fix E (ask_calls (trace st)) doc (current_rule st) err = None"
  then show body: "attempt_body E url m a st = (Continue, after_failed_repair url doc err st)"
    by (intro attempt_body_failed_repair) simp_all
  from h have "a \<le> m" by simp
  from run_loop_continue [OF this body]
  show "run_loop E url m a st = run_loop E url m (a + 1) (after_failed_repair url doc err st)" .
next
  assume h: "fetch_webpage E url = Some doc
      \<and> extract_products E doc
           (container_selector (deref s init)) (name_selector (deref s init))
           (price_selector (deref s init)) = Inr (None, err)
      \<and> (\<forall>k request. model_reply E k request = None)"
  let ?s1 = "s\<lparr>cells := (cells s)(next_free s := cells s init), next_free := Suc (next_free s)\<rparr>"
  let ?st = "initial_state (next_free s) ?s1"
  have rule: "current_rule ?st = deref s init"
    by (simp add: initial_state_def deref_def current_rule_def)
  have h1: "html ?st = Some doc \<or> html ?st = None \<and> fetch_webpage E url = Some doc"
    using h by (simp add: initial_state_def)
  have h2: "extract_current E doc ?st = Inr (None, err)"
    using h by (simp add: extract_current_def rule)
  have h3: "\<forall>k request. model_reply E k request = None"
    using h by simp
  from run_loop_oracle_fails [OF h1 h2 h3, where m = m and a = 1]
  obtain st' where "run_loop E url m 1 ?st = (Inr None, st')"
    and "error st' = (if 1 \<le> m then err else error ?st)"
    and "current_rule st' = current_rule ?st"
    and "extract_calls (trace st') = extract_calls (trace ?st) + nat (m + 1 - 1)"
    and "ask_calls (trace st') = ask_calls (trace ?st) + nat (m - 1)"
    by (elim exE conjE)
  then have *: "fst (run_agent E url init m s) = Inr None
        \<and> extract_calls (trace (snd (run_agent E url init m s))) = nat m
        \<and> ask_calls (trace (snd (run_agent E url init m s))) = nat (m - 1)
        \<and> current_rule (snd (run_agent E url init m s)) = deref s init
        \<and> error (snd (run_agent E url init m s)) = (if 1 \<le> m then err else None)"
    using rule by (simp add: run_agent_eq) (simp add: initial_state_def)
  from * show "fst (run_agent E url init m s) = Inr None" by simp
  from * show "extract_calls (trace (snd (run_agent E url init m s))) = nat m" by simp
  from * show "ask_calls (trace (snd (run_agent E url init m s))) = nat (m - 1)" by simp
  from * show "current_rule (snd (run_agent E url init m s)) = deref s init" by simp
  from * show "error (snd (run_agent E url init m s)) = (if 1 \<le> m then err else None)" by simp
qed

text \<open>
  First part at the second of four attempts, after a repair that replaced the rule by one
  that still fails: the oracle fails and the loop goes on, so that the whole run makes
  four Extractor calls and three oracle calls. Second part at three attempts.
\<close>

theorem oracle_failure_continues_witness:
  "html repaired_once = Some shop_page
   \<and> current_rule repaired_once = working_rule\<lparr>container_selector := Str ''div.card''\<rparr>
   \<and> extract_current (oracle_flaky shop) shop_page repaired_once
       = Inr (None, Some no_fields_msg)
   \<and> ask_ai_to_fix (oracle_flaky shop) (ask_calls (trace repaired_once)) shop_page
        (current_rule repaired_once) (Some no_fields_msg) = None
   \<and> run_loop (oracle_flaky shop) ''https://shop.test/'' 4 2 repaired_once
       = run_loop (oracle_flaky shop) ''https://shop.test/'' 4 3
           (after_failed_repair ''https://shop.test/'' shop_page (Some no_fields_msg)
              repaired_once)
   \<and> extract_calls
        (trace (snd (run_agent (oracle_flaky shop) ''https://shop.test/'' 0 4 shop_store))) = 4
   \<and> ask_calls
        (trace (snd (run_agent (oracle_flaky shop) ''https://shop.test/'' 0 4 shop_store))) = 3
   \<and> fst (run_agent (oracle_down shop) ''https://shop.test/'' 0 3 shop_store) = Inr None
   \<and> extract_calls
        (trace (snd (run_agent (oracle_down shop) ''https://shop.test/'' 0 3 shop_store))) = 3
   \<and> ask_calls
        (trace (snd (run_agent (oracle_down shop) ''https://shop.test/'' 0 3 shop_store))) = 2
   \<and> error (snd (run_agent (oracle_down shop) ''https://shop.test/'' 0 3 shop_store))
       = Some no_containers_msg"
proof -
  have a1: "html repaired_once = Some shop_page"
    by code_simp
  have a2: "current_rule repaired_once = working_rule\<lparr>container_selector := Str ''div.card''\<rparr>"
    by code_simp
  have a3: "extract_current (oracle_flaky shop) shop_page repaired_once
              = Inr (None, Some no_fields_msg)"
    by code_simp
  have a4: "ask_ai_to_fix (oracle_flaky shop) (ask_calls (trace repaired_once)) shop_page
              (current_rule repaired_once) (Some no_fields_msg) = None"
    by code_simp
  have a5: "(2::int) < 4"
    by simp
  have step: "run_loop (oracle_flaky shop) ''https://shop.test/'' 4 2 repaired_once
       = run_loop (oracle_flaky shop) ''https://shop.test/'' 4 3
           (after_failed_repair ''https://shop.test/'' shop_page (Some no_fields_msg)
              repaired_once)"
    using a1 a3 a4 a5
      oracle_failure_continues
        [where E = "oracle_flaky shop" and st = repaired_once and doc = shop_page
           and err = "Some no_fields_msg" and a = 2 and m = 4 and url = "''https://shop.test/''"]
    by simp
  have b1: "extract_calls
        (trace (snd (run_agent (oracle_flaky shop) ''https://shop.test/'' 0 4 shop_store))) = 4"
    by code_simp
  have b2: "ask_calls
        (trace (snd (run_agent (oracle_flaky shop) ''https://shop.test/'' 0 4 shop_store))) = 3"
    by code_simp
  have h1: "fetch_webpage (oracle_down shop) ''https://shop.test/'' = Some shop_page"
    by (simp add: fetch_webpage_def oracle_down_def shop_def)
  have h2: "extract_products (oracle_down shop) shop_page
              (container_selector (deref shop_store 0)) (name_selector (deref shop_store 0))
              (price_selector (deref shop_store 0)) = Inr (None, Some no_containers_msg)"
    by code_simp
  have h3: "\<forall>k request. model_reply (oracle_down shop) k request = None"
    by (simp add: oracle_down_def)
  have run: "fst (run_agent (oracle_down shop) ''https://shop.test/'' 0 3 shop_store) = Inr None
   \<and> extract_calls
        (trace (snd (run_agent (oracle_down shop) ''https://shop.test/'' 0 3 shop_store))) = 3
   \<and> ask_calls
        (trace (snd (run_agent (oracle_down shop) ''https://shop.test/'' 0 3 shop_store))) = 2
   \<and> error (snd (run_agent (oracle_down shop) ''https://shop.test/'' 0 3 shop_store))
       = Some no_containers_msg"
    using h1 h2 h3
      oracle_failure_continues
        [where E = "oracle_down shop" and doc = shop_page and s = shop_store and init = 0
           and err = "Some no_containers_msg" and m = 3 and url = "''https://shop.test/''"]
    by simp
  from a1 a2 a3 a4 step b1 b2 run show ?thesis by simp
qed

text \<open>
  Claim C1 as stated fails: with maximum attempts 3, a rule that matches nothing and an
  oracle that always fails, the run goes through all three attempts and asks the oracle
  twice, instead of stopping at attempt 1 after one oracle call.
\<close>

theorem oracle_failure_counterexample:
  "fetch_webpage (oracle_down shop) ''https://shop.test/'' = Some shop_page
   \<and> extract_products (oracle_down shop) shop_page
        (Str ''ul.none'') (Str ''h3 a'') (Str ''.price_color'')
       = Inr (None, Some no_containers_msg)
   \<and> ask_ai_to_fix (oracle_down shop) 0 shop_page (deref shop_store 0) (Some no_containers_msg)
       = None
   \<and> ask_ai_to_fix (oracle_down shop) 1 shop_page (deref shop_store 0) (Some no_containers_msg)
       = None
   \<and> trace (snd (run_agent (oracle_down shop) ''https://shop.test/'' 0 3 shop_store))
       = [Call_fetch ''https://shop.test/'',
          Call_extract shop_page (Str ''ul.none'') (Str ''h3 a'') (Str ''.price_color''),
          Call_ask shop_page (deref shop_store 0) (Some no_containers_msg),
          Call_extract shop_page (Str ''ul.none'') (Str ''h3 a'') (Str ''.price_color''),
          Call_ask shop_page (deref shop_store 0) (Some no_containers_msg),
          Call_extract shop_page (Str ''ul.none'') (Str ''h3 a'') (Str ''.price_color'')]
   \<and> extract_calls (trace (snd (run_agent (oracle_down shop) ''https://shop.test/'' 0 3 shop_store)))
       \<noteq> 1
   \<and> ask_calls (trace (snd (run_agent (oracle_down shop) ''https://shop.test/'' 0 3 shop_store)))
       \<noteq> 1"
  by code_simp

end
